theory Spec2Isabelle
  imports Complex_Main
begin

section \<open>DecentraTrust AI: score service, tier classification and score publication\<close>

text \<open>
  The development embeds three Python modules:
  \<^item> \<^verbatim>\<open>ai-engine/score_service.py\<close>: \<^verbatim>\<open>UserMetrics\<close>, \<^verbatim>\<open>calculate_score\<close>,
    \<^verbatim>\<open>get_score_details\<close>;
  \<^item> \<^verbatim>\<open>backend/main.py\<close>: \<^verbatim>\<open>get_tier_from_score\<close> and the \<^verbatim>\<open>/push-score\<close> handler;
  \<^item> \<^verbatim>\<open>backend/oracle_listener.py\<close>: \<^verbatim>\<open>OracleListener.push_score\<close>.

  Conventions of the embedding.
  \<^item> Python \<^verbatim>\<open>int\<close> is \<open>int\<close>. Python \<^verbatim>\<open>float\<close> is idealised as \<open>real\<close>: the
    specification reads the formula with real-valued intermediate computation, and the
    embedding follows it. Binary rounding of IEEE doubles, their overflow, infinities and
    NaN are outside the model. Where Python keeps an \<^verbatim>\<open>int\<close> in a place the model types as \<open>real\<close>
    (\<^verbatim>\<open>min(x, 15)\<close> returning the literal \<^verbatim>\<open>15\<close>), the integer is embedded in \<open>real\<close>.
  \<^item> Operations that can raise are values of a sum type, \<open>Inl\<close> carrying the exception.
  \<^item> \<^verbatim>\<open>print\<close> calls are console narration and are left out.
\<close>

subsection \<open>Python primitives\<close>

datatype py_error = ZeroDivisionError | ValueError

text \<open>True division \<^verbatim>\<open>a / b\<close> of two integers: a float, or \<^verbatim>\<open>ZeroDivisionError\<close>.\<close>

definition py_truediv :: "int \<Rightarrow> int \<Rightarrow> py_error + real" where
  "py_truediv a b = (if b = 0 then Inl ZeroDivisionError else Inr (real_of_int a / real_of_int b))"

text \<open>\<^verbatim>\<open>math.log10(x)\<close>: raises \<^verbatim>\<open>ValueError\<close> (math domain error) unless \<open>x > 0\<close>.\<close>

definition py_log10 :: "real \<Rightarrow> py_error + real" where
  "py_log10 x = (if x \<le> 0 then Inl ValueError else Inr (log 10 x))"

text \<open>
  The built-in \<^verbatim>\<open>round(x)\<close> of Python 3 on a float: the nearest integer, a tie going to
  the even neighbour (\<^verbatim>\<open>round(0.5) == 0\<close>, \<^verbatim>\<open>round(1.5) == 2\<close>, \<^verbatim>\<open>round(2.5) == 2\<close>).
\<close>

definition py_round :: "real \<Rightarrow> int" where
  "py_round x =
     (let f = \<lfloor>x\<rfloor>; d = x - of_int f
      in if d < 1 / 2 then f
         else if 1 / 2 < d then f + 1
         else if even f then f else f + 1)"

text \<open>
  \<^verbatim>\<open>round(x, ndigits)\<close>: the same rounding at the \<open>ndigits\<close>-th decimal place, read on
  real numbers.
\<close>

definition py_round_ndigits :: "real \<Rightarrow> nat \<Rightarrow> real" where
  "py_round_ndigits x ndigits = of_int (py_round (x * 10 ^ ndigits)) / 10 ^ ndigits"

subsection \<open>The metrics record\<close>

record UserMetrics =
  transaction_count :: int
  avg_transaction_value :: real
  account_age_days :: int
  dispute_count :: int
  successful_transactions :: int
  frequency_per_day :: real
  variance_score :: "real option"

text \<open>
  The constraints on a metrics record, as the request model of \<^verbatim>\<open>main.py\<close> enforces them
  (\<^verbatim>\<open>ge=0\<close> on every count and rate, \<^verbatim>\<open>ge=0, le=100\<close> on the optional variance).
\<close>

definition valid_metrics :: "UserMetrics \<Rightarrow> bool" where
  "valid_metrics m =
     (0 \<le> transaction_count m \<and> 0 \<le> avg_transaction_value m \<and> 0 \<le> account_age_days m \<and>
      0 \<le> dispute_count m \<and> 0 \<le> successful_transactions m \<and> 0 \<le> frequency_per_day m \<and>
      (case variance_score m of None \<Rightarrow> True | Some v \<Rightarrow> 0 \<le> v \<and> v \<le> 100))"

subsection \<open>\<^verbatim>\<open>calculate_score\<close>\<close>

text \<open>
  The body of \<^verbatim>\<open>calculate_score\<close> up to the comment \<^verbatim>\<open>=== Final Score ===\<close>: the value of
  the local variable \<^verbatim>\<open>score\<close> just before it is rounded.
\<close>

definition calculate_score_sum :: "UserMetrics \<Rightarrow> py_error + real" where
  "calculate_score_sum metrics =
     (let score = 50;
          age_bonus = min (real_of_int (account_age_days metrics) / 365 * 10) 15;
          score = score + age_bonus
      in case (if transaction_count metrics > 0
               then (case py_truediv (successful_transactions metrics) (transaction_count metrics) of
                       Inl e \<Rightarrow> Inl e
                     | Inr success_rate \<Rightarrow>
                         (let success_bonus = success_rate * 20 in Inr (score + success_bonus)))
               else Inr score) of
           Inl e \<Rightarrow> Inl e
         | Inr score \<Rightarrow>
            (case py_log10 (real_of_int (max (transaction_count metrics) 1 + 1)) of
               Inl e \<Rightarrow> Inl e
             | Inr lg \<Rightarrow>
                (let volume_bonus = min (lg * 3) 10;
                     score = score + volume_bonus;
                     score = (if 1 / 10 \<le> frequency_per_day metrics \<and> frequency_per_day metrics \<le> 5
                              then (let frequency_bonus = 10 - \<bar>frequency_per_day metrics - 1\<bar> * 2;
                                        frequency_bonus = max 0 (min frequency_bonus 10)
                                    in score + frequency_bonus)
                              else score);
                     score = (case variance_score metrics of
                                None \<Rightarrow> score
                              | Some v \<Rightarrow>
                                  if v < 30
                                  then (let variance_bonus = (30 - v) / 6 in score + variance_bonus)
                                  else score);
                     dispute_penalty = min (dispute_count metrics * 5) 30;
                     score = score - real_of_int dispute_penalty;
                     score = (if account_age_days metrics < 30
                              then (let new_account_penalty =
                                          real_of_int (30 - account_age_days metrics) / 3
                                    in score - new_account_penalty)
                              else score);
                     score = (if frequency_per_day metrics > 10
                              then (let high_freq_penalty =
                                          min ((frequency_per_day metrics - 10) * 2) 20
                                    in score - high_freq_penalty)
                              else score);
                     score = (if avg_transaction_value metrics < 10 \<and> frequency_per_day metrics > 5
                              then (let wash_trading_penalty = 15 in score - wash_trading_penalty)
                              else score)
                 in Inr score)))"

text \<open>\<^verbatim>\<open>final_score = max(0, min(100, round(score)))\<close>, returned as an \<^verbatim>\<open>int\<close>.\<close>

definition calculate_score :: "UserMetrics \<Rightarrow> py_error + int" where
  "calculate_score metrics =
     (case calculate_score_sum metrics of
        Inl e \<Rightarrow> Inl e
      | Inr score \<Rightarrow> (let final_score = max 0 (min 100 (py_round score)) in Inr final_score))"

subsection \<open>\<^verbatim>\<open>get_score_details\<close>\<close>

text \<open>
  The dictionary \<^verbatim>\<open>details\<close>: the keys \<^verbatim>\<open>base_score\<close>, \<^verbatim>\<open>factors\<close>, \<^verbatim>\<open>penalties\<close> and
  \<^verbatim>\<open>final_score\<close>; the two inner dictionaries map a factor name to its recorded value.
\<close>

record score_details =
  base_score :: int
  factors :: "string \<rightharpoonup> real"
  penalties :: "string \<rightharpoonup> real"
  final_score :: int

text \<open>
  The function updates three things as it runs: the local \<^verbatim>\<open>score\<close>, and the inner
  dictionaries \<^verbatim>\<open>details["factors"]\<close> and \<^verbatim>\<open>details["penalties"]\<close>. The embedding passes
  them along as a triple \<open>(score, fs, ps)\<close>, one function for each commented block of the
  source, in the order of the source.
\<close>

type_synonym details_state = "real \<times> (string \<rightharpoonup> real) \<times> (string \<rightharpoonup> real)"

text \<open>\<^verbatim>\<open># Age bonus\<close>\<close>

definition details_age_bonus :: "UserMetrics \<Rightarrow> details_state \<Rightarrow> details_state" where
  "details_age_bonus metrics st =
     (case st of (score, fs, ps) \<Rightarrow>
        (let age_bonus = min (real_of_int (account_age_days metrics) / 365 * 10) 15
         in (score + age_bonus, fs(''account_age'' \<mapsto> py_round_ndigits age_bonus 2), ps)))"

text \<open>\<^verbatim>\<open># Success rate\<close>\<close>

definition details_success_rate :: "UserMetrics \<Rightarrow> details_state \<Rightarrow> py_error + details_state" where
  "details_success_rate metrics st =
     (case st of (score, fs, ps) \<Rightarrow>
        (if transaction_count metrics > 0
         then (case py_truediv (successful_transactions metrics) (transaction_count metrics) of
                 Inl e \<Rightarrow> Inl e
               | Inr success_rate \<Rightarrow>
                   (let success_bonus = success_rate * 20
                    in Inr (score + success_bonus,
                            fs(''success_rate'' \<mapsto> py_round_ndigits success_bonus 2), ps)))
         else Inr (score, fs, ps)))"

text \<open>\<^verbatim>\<open># Volume bonus\<close>\<close>

definition details_volume_bonus :: "UserMetrics \<Rightarrow> details_state \<Rightarrow> py_error + details_state" where
  "details_volume_bonus metrics st =
     (case st of (score, fs, ps) \<Rightarrow>
        (case py_log10 (real_of_int (max (transaction_count metrics) 1 + 1)) of
           Inl e \<Rightarrow> Inl e
         | Inr lg \<Rightarrow>
             (let volume_bonus = min (lg * 3) 10
              in Inr (score + volume_bonus,
                      fs(''transaction_volume'' \<mapsto> py_round_ndigits volume_bonus 2), ps))))"

text \<open>\<^verbatim>\<open># Frequency bonus\<close>\<close>

definition details_frequency_bonus :: "UserMetrics \<Rightarrow> details_state \<Rightarrow> details_state" where
  "details_frequency_bonus metrics st =
     (case st of (score, fs, ps) \<Rightarrow>
        (if 1 / 10 \<le> frequency_per_day metrics \<and> frequency_per_day metrics \<le> 5
         then (let frequency_bonus = 10 - \<bar>frequency_per_day metrics - 1\<bar> * 2;
                   frequency_bonus = max 0 (min frequency_bonus 10)
               in (score + frequency_bonus,
                   fs(''frequency'' \<mapsto> py_round_ndigits frequency_bonus 2), ps))
         else (score, fs, ps)))"

text \<open>\<^verbatim>\<open># Dispute penalty\<close>, an integer, which \<^verbatim>\<open>round(_, 2)\<close> leaves as it is.\<close>

definition details_dispute_penalty :: "UserMetrics \<Rightarrow> details_state \<Rightarrow> details_state" where
  "details_dispute_penalty metrics st =
     (case st of (score, fs, ps) \<Rightarrow>
        (if dispute_count metrics > 0
         then (let dispute_penalty = min (dispute_count metrics * 5) 30
               in (score - real_of_int dispute_penalty, fs,
                   ps(''disputes'' \<mapsto> real_of_int dispute_penalty)))
         else (score, fs, ps)))"

text \<open>\<^verbatim>\<open># New account penalty\<close>\<close>

definition details_new_account_penalty :: "UserMetrics \<Rightarrow> details_state \<Rightarrow> details_state" where
  "details_new_account_penalty metrics st =
     (case st of (score, fs, ps) \<Rightarrow>
        (if account_age_days metrics < 30
         then (let new_account_penalty = real_of_int (30 - account_age_days metrics) / 3
               in (score - new_account_penalty, fs,
                   ps(''new_account'' \<mapsto> py_round_ndigits new_account_penalty 2)))
         else (score, fs, ps)))"

text \<open>\<^verbatim>\<open># High frequency penalty\<close>\<close>

definition details_high_frequency_penalty :: "UserMetrics \<Rightarrow> details_state \<Rightarrow> details_state" where
  "details_high_frequency_penalty metrics st =
     (case st of (score, fs, ps) \<Rightarrow>
        (if frequency_per_day metrics > 10
         then (let high_freq_penalty = min ((frequency_per_day metrics - 10) * 2) 20
               in (score - high_freq_penalty, fs,
                   ps(''high_frequency'' \<mapsto> py_round_ndigits high_freq_penalty 2)))
         else (score, fs, ps)))"

text \<open>
  \<^verbatim>\<open>get_score_details\<close>: the blocks in sequence from \<^verbatim>\<open>score = 50.0\<close> and two empty
  dictionaries, then the final clamp. The function has no block for the variance score and
  none for the average transaction value.
\<close>

definition get_score_details :: "UserMetrics \<Rightarrow> py_error + score_details" where
  "get_score_details metrics =
     (case details_success_rate metrics
             (details_age_bonus metrics (50, Map.empty, Map.empty)) of
        Inl e \<Rightarrow> Inl e
      | Inr st \<Rightarrow>
         (case details_volume_bonus metrics st of
            Inl e \<Rightarrow> Inl e
          | Inr st \<Rightarrow>
             (case details_high_frequency_penalty metrics
                     (details_new_account_penalty metrics
                        (details_dispute_penalty metrics
                           (details_frequency_bonus metrics st))) of
                (score, fs, ps) \<Rightarrow>
                  (let final_score = max 0 (min 100 (py_round score))
                   in Inr \<lparr>base_score = 50, factors = fs, penalties = ps,
                           final_score = final_score\<rparr>))))"

text \<open>The lookup \<^verbatim>\<open>get_score_details(metrics)["final_score"]\<close>.\<close>

definition details_final_score :: "UserMetrics \<Rightarrow> py_error + int" where
  "details_final_score metrics =
     (case get_score_details metrics of Inl e \<Rightarrow> Inl e | Inr details \<Rightarrow> Inr (final_score details))"

subsection \<open>\<^verbatim>\<open>main.py\<close>: tier classification and the \<^verbatim>\<open>/push-score\<close> handler\<close>

definition get_tier_from_score :: "int \<Rightarrow> string" where
  "get_tier_from_score score =
     (if score \<ge> 80 then ''FULL''
      else if score \<ge> 50 then ''LIMITED''
      else ''BLOCKED'')"

record PushScoreRequest =
  req_wallet_address :: string
  req_score :: int

record PushScoreResponse =
  success :: bool
  resp_wallet_address :: string
  resp_score :: int
  message :: string
  transaction_hash :: "string option"

text \<open>
  The module-level dictionary \<^verbatim>\<open>blockchain_state\<close>, with its keys \<^verbatim>\<open>connected\<close>,
  \<^verbatim>\<open>oracle_address\<close> and \<^verbatim>\<open>reputation_address\<close>.
\<close>

record blockchain_state =
  bs_connected :: bool
  bs_oracle_address :: "string option"
  bs_reputation_address :: "string option"

text \<open>\<^verbatim>\<open>HTTPException(status_code, detail)\<close>.\<close>

datatype http_error = HTTPException int string

text \<open>
  The handler \<^verbatim>\<open>push_score\<close> of \<^verbatim>\<open>main.py\<close>. It reads the global \<^verbatim>\<open>blockchain_state\<close>,
  passed here as an argument. Raising \<^verbatim>\<open>HTTPException\<close> is \<open>Inl\<close>; the handler
  \<^verbatim>\<open>except HTTPException: raise\<close> passes it on unchanged, and no other exception arises in
  the body. The branch taken when the state reads connected holds no call to the oracle
  listener: the source has a \<^verbatim>\<open>TODO\<close> comment there and returns a fixed response.
\<close>

definition push_score :: "blockchain_state \<Rightarrow> PushScoreRequest \<Rightarrow> http_error + PushScoreResponse" where
  "push_score state request =
     (if \<not> (0 \<le> req_score request \<and> req_score request \<le> 100)
      then Inl (HTTPException 400 ''Score must be between 0 and 100'')
      else if \<not> bs_connected state
      then Inr \<lparr>success = True,
                resp_wallet_address = req_wallet_address request,
                resp_score = req_score request,
                message = ''Score recorded (blockchain not connected - stub mode)'',
                transaction_hash = None\<rparr>
      else Inr \<lparr>success = True,
                resp_wallet_address = req_wallet_address request,
                resp_score = req_score request,
                message = ''Score pushed to blockchain'',
                transaction_hash = Some ''0x...''\<rparr>)"

subsection \<open>\<^verbatim>\<open>oracle_listener.py\<close>: \<^verbatim>\<open>OracleListener.push_score\<close>\<close>

text \<open>
  Exceptions of the listener: \<^verbatim>\<open>ContractLogicError\<close> of web3, and any other subclass of
  \<^verbatim>\<open>Exception\<close> (a transport failure, an \<^verbatim>\<open>AttributeError\<close> on a missing connection, a
  \<^verbatim>\<open>KeyError\<close> on the receipt). Each carries its message.
\<close>

datatype web3_exn = ContractLogicError string | OtherException string

text \<open>The dictionary passed to \<^verbatim>\<open>build_transaction\<close>.\<close>

record tx_params =
  tx_from :: string
  tx_nonce :: int
  tx_gas :: int
  tx_gasPrice :: int

text \<open>
  The web3 library is not part of the repository; what the method calls on it is a
  parameter of the model, and each call may raise. Addresses, contract calls, built and
  signed transactions and transaction hashes are opaque to the method and are strings here
  (a hash is identified with its \<^verbatim>\<open>.hex()\<close> rendering); a receipt is a dictionary from
  field names to integers.
  \<^item> \<open>web3_contract\<close>: the contract object \<^verbatim>\<open>self.oracle_contract\<close>, with
    \<^verbatim>\<open>functions.pushScore(address, score)\<close> and \<^verbatim>\<open>build_transaction\<close> on its result;
  \<^item> \<open>web3_conn\<close>: the connection \<^verbatim>\<open>self.w3\<close>, with the members of \<^verbatim>\<open>self.w3.eth\<close> and
    \<^verbatim>\<open>self.w3.eth.account\<close> that the method uses;
  \<^item> the static method \<^verbatim>\<open>Web3.to_checksum_address\<close> is passed as an argument.
\<close>

record web3_contract =
  functions_pushScore :: "string \<Rightarrow> int \<Rightarrow> web3_exn + string"
  build_transaction :: "string \<Rightarrow> tx_params \<Rightarrow> web3_exn + string"

record web3_conn =
  get_transaction_count :: "string \<Rightarrow> web3_exn + int"
  gas_price :: "web3_exn + int"
  sign_transaction :: "string \<Rightarrow> string option \<Rightarrow> web3_exn + string"
  send_raw_transaction :: "string \<Rightarrow> web3_exn + string"
  wait_for_transaction_receipt :: "string \<Rightarrow> web3_exn + (string \<rightharpoonup> int)"

text \<open>
  The attributes of an \<^verbatim>\<open>OracleListener\<close> that \<^verbatim>\<open>push_score\<close> reads. \<^verbatim>\<open>w3\<close>,
  \<^verbatim>\<open>oracle_contract\<close> and \<^verbatim>\<open>account\<close> are \<^verbatim>\<open>None\<close> until set by \<^verbatim>\<open>connect\<close> and
  \<^verbatim>\<open>load_contract\<close>; \<^verbatim>\<open>account\<close> holds the account's address.
\<close>

record OracleListener =
  w3 :: "web3_conn option"
  oracle_contract :: "web3_contract option"
  account :: "string option"
  private_key :: "string option"

text \<open>
  The statements of the \<^verbatim>\<open>try\<close> block from \<^verbatim>\<open>Web3.to_checksum_address\<close> to
  \<^verbatim>\<open>wait_for_transaction_receipt\<close>, in the order Python evaluates them: the hash of the
  sent transaction and its receipt, or the first exception raised. The arguments
  \<open>contract\<close> and \<open>account_address\<close> are \<^verbatim>\<open>self.oracle_contract\<close> and
  \<^verbatim>\<open>self.account.address\<close>. Reading \<^verbatim>\<open>self.w3.eth\<close> while \<^verbatim>\<open>self.w3\<close> is \<^verbatim>\<open>None\<close> raises
  \<^verbatim>\<open>AttributeError\<close>.
\<close>

definition submit_transaction ::
  "(string \<Rightarrow> web3_exn + string) \<Rightarrow> OracleListener \<Rightarrow> web3_contract \<Rightarrow> string \<Rightarrow>
   string \<Rightarrow> int \<Rightarrow> web3_exn + (string \<times> (string \<rightharpoonup> int))" where
  "submit_transaction to_checksum_address self contract account_address user_address score =
     (case to_checksum_address user_address of Inl e \<Rightarrow> Inl e | Inr user_address \<Rightarrow>
     (case functions_pushScore contract user_address score of Inl e \<Rightarrow> Inl e | Inr call \<Rightarrow>
     (case w3 self of None \<Rightarrow> Inl (OtherException ''AttributeError'') | Some conn \<Rightarrow>
     (case get_transaction_count conn account_address of Inl e \<Rightarrow> Inl e | Inr nonce \<Rightarrow>
     (case gas_price conn of Inl e \<Rightarrow> Inl e | Inr price \<Rightarrow>
     (case build_transaction contract call
             \<lparr>tx_from = account_address, tx_nonce = nonce, tx_gas = 100000,
              tx_gasPrice = price\<rparr> of Inl e \<Rightarrow> Inl e | Inr tx \<Rightarrow>
     (case sign_transaction conn tx (private_key self) of Inl e \<Rightarrow> Inl e | Inr signed_tx \<Rightarrow>
     (case send_raw_transaction conn signed_tx of Inl e \<Rightarrow> Inl e | Inr tx_hash \<Rightarrow>
     (case wait_for_transaction_receipt conn tx_hash of Inl e \<Rightarrow> Inl e | Inr receipt \<Rightarrow>
        Inr (tx_hash, receipt))))))))))"

text \<open>
  The body of the \<^verbatim>\<open>try\<close> block: the range check, the submission, and the test of
  \<^verbatim>\<open>receipt['status']\<close> (a \<^verbatim>\<open>KeyError\<close> when the receipt has no such field).
\<close>

definition push_score_try ::
  "(string \<Rightarrow> web3_exn + string) \<Rightarrow> OracleListener \<Rightarrow> web3_contract \<Rightarrow> string \<Rightarrow>
   string \<Rightarrow> int \<Rightarrow> web3_exn + string option" where
  "push_score_try to_checksum_address self contract account_address user_address score =
     (if \<not> (0 \<le> score \<and> score \<le> 100) then Inr None
      else case submit_transaction to_checksum_address self contract account_address
                  user_address score of
             Inl e \<Rightarrow> Inl e
           | Inr (tx_hash, receipt) \<Rightarrow>
              (case receipt ''status'' of
                 None \<Rightarrow> Inl (OtherException ''KeyError'')
               | Some status \<Rightarrow> if status = 1 then Inr (Some tx_hash) else Inr None))"

text \<open>
  \<^verbatim>\<open>OracleListener.push_score\<close>: the configuration check, then the \<^verbatim>\<open>try\<close> block with its
  two handlers, \<^verbatim>\<open>except ContractLogicError\<close> and \<^verbatim>\<open>except Exception\<close>, each returning
  \<^verbatim>\<open>None\<close>. The result type keeps an \<open>Inl\<close> for an exception that would leave the method.
\<close>

definition OracleListener_push_score ::
  "(string \<Rightarrow> web3_exn + string) \<Rightarrow> OracleListener \<Rightarrow> string \<Rightarrow> int \<Rightarrow>
   web3_exn + string option" where
  "OracleListener_push_score to_checksum_address self user_address score =
     (case (oracle_contract self, account self) of
        (Some contract, Some account_address) \<Rightarrow>
          (case push_score_try to_checksum_address self contract account_address
                  user_address score of
             Inl (ContractLogicError e) \<Rightarrow> Inr None
           | Inl (OtherException e) \<Rightarrow> Inr None
           | Inr result \<Rightarrow> Inr result)
      | _ \<Rightarrow> Inr None)"

section \<open>The formula of the specification and auxiliary notions\<close>

text \<open>
  The contributions of the scoring formula, one definition for each bullet of the
  specification's algorithm, and their signed sum before rounding.
\<close>

definition spec_age_bonus :: "UserMetrics \<Rightarrow> real" where
  "spec_age_bonus m = min (real_of_int (account_age_days m) / 365 * 10) 15"

definition spec_success_bonus :: "UserMetrics \<Rightarrow> real" where
  "spec_success_bonus m =
     (if transaction_count m > 0
      then real_of_int (successful_transactions m) / real_of_int (transaction_count m) * 20
      else 0)"

definition spec_volume_bonus :: "UserMetrics \<Rightarrow> real" where
  "spec_volume_bonus m = min (log 10 (real_of_int (max (transaction_count m) 1 + 1)) * 3) 10"

definition spec_frequency_bonus :: "UserMetrics \<Rightarrow> real" where
  "spec_frequency_bonus m =
     (if 1 / 10 \<le> frequency_per_day m \<and> frequency_per_day m \<le> 5
      then max 0 (min (10 - \<bar>frequency_per_day m - 1\<bar> * 2) 10)
      else 0)"

definition spec_variance_bonus :: "UserMetrics \<Rightarrow> real" where
  "spec_variance_bonus m =
     (case variance_score m of None \<Rightarrow> 0 | Some v \<Rightarrow> if v < 30 then (30 - v) / 6 else 0)"

definition spec_dispute_penalty :: "UserMetrics \<Rightarrow> real" where
  "spec_dispute_penalty m = real_of_int (min (dispute_count m * 5) 30)"

definition spec_new_account_penalty :: "UserMetrics \<Rightarrow> real" where
  "spec_new_account_penalty m =
     (if account_age_days m < 30 then real_of_int (30 - account_age_days m) / 3 else 0)"

definition spec_high_frequency_penalty :: "UserMetrics \<Rightarrow> real" where
  "spec_high_frequency_penalty m =
     (if frequency_per_day m > 10 then min ((frequency_per_day m - 10) * 2) 20 else 0)"

definition spec_wash_trading_penalty :: "UserMetrics \<Rightarrow> real" where
  "spec_wash_trading_penalty m =
     (if avg_transaction_value m < 10 \<and> frequency_per_day m > 5 then 15 else 0)"

definition spec_sum :: "UserMetrics \<Rightarrow> real" where
  "spec_sum m =
     50 + (spec_age_bonus m + spec_success_bonus m + spec_volume_bonus m +
           spec_frequency_bonus m + spec_variance_bonus m)
        - (spec_dispute_penalty m + spec_new_account_penalty m +
           spec_high_frequency_penalty m + spec_wash_trading_penalty m)"


text \<open>
  The sum that \<^verbatim>\<open>get_score_details\<close> accumulates: the contributions it has a block for.
  Its dispute block is guarded by \<^verbatim>\<open>dispute_count > 0\<close>.
\<close>

definition details_sum :: "UserMetrics \<Rightarrow> real" where
  "details_sum m =
     50 + (spec_age_bonus m + spec_success_bonus m + spec_volume_bonus m + spec_frequency_bonus m)
        - ((if dispute_count m > 0 then spec_dispute_penalty m else 0) +
           spec_new_account_penalty m + spec_high_frequency_penalty m)"

section \<open>Concrete inputs\<close>

text \<open>
  A record with a low variance score and nothing else out of the ordinary: nine
  transactions, none successful, a one-year-old account, no disputes, no activity per day.
\<close>

definition low_variance_metrics :: UserMetrics where
  "low_variance_metrics =
     \<lparr>transaction_count = 9, avg_transaction_value = 100, account_age_days = 365,
      dispute_count = 0, successful_transactions = 0, frequency_per_day = 0,
      variance_score = Some 0\<rparr>"

text \<open>
  A record that meets both the low-variance condition and the wash-trading condition
  (low transaction value at six transactions a day).
\<close>

definition wash_trading_metrics :: UserMetrics where
  "wash_trading_metrics =
     \<lparr>transaction_count = 9, avg_transaction_value = 5, account_age_days = 365,
      dispute_count = 0, successful_transactions = 9, frequency_per_day = 6,
      variance_score = Some 0\<rparr>"



text \<open>The connection state as the module initialises it, and with the flag set.\<close>

definition stub_state :: blockchain_state where
  "stub_state = \<lparr>bs_connected = False, bs_oracle_address = None, bs_reputation_address = None\<rparr>"

definition connected_state :: blockchain_state where
  "connected_state =
     \<lparr>bs_connected = True, bs_oracle_address = Some ''0xOracle'',
      bs_reputation_address = None\<rparr>"

definition sample_request :: PushScoreRequest where
  "sample_request = \<lparr>req_wallet_address = ''0xUser'', req_score = 85\<rparr>"

text \<open>An address check that accepts every address as it is.\<close>

definition accept_address :: "string \<Rightarrow> web3_exn + string" where
  "accept_address a = Inr a"

text \<open>
  A node on which every call succeeds and the receipt carries the given status
  (1 for a confirmed transaction, 0 for a reverted one).
\<close>

definition confirming_conn :: "int \<Rightarrow> web3_conn" where
  "confirming_conn status =
     \<lparr>get_transaction_count = (\<lambda>a. Inr 0),
      gas_price = Inr 1,
      sign_transaction = (\<lambda>t k. Inr ''signed''),
      send_raw_transaction = (\<lambda>r. Inr ''0xabc''),
      wait_for_transaction_receipt = (\<lambda>h. Inr [''status'' \<mapsto> status])\<rparr>"

text \<open>
  A contract whose call is built without error, and one whose call is rejected with
  \<^verbatim>\<open>ContractLogicError\<close>.
\<close>

definition accepting_contract :: web3_contract where
  "accepting_contract =
     \<lparr>functions_pushScore = (\<lambda>a s. Inr ''pushScore''),
      build_transaction = (\<lambda>c p. Inr ''tx'')\<rparr>"


text \<open>A listener after \<^verbatim>\<open>connect\<close> and \<^verbatim>\<open>load_contract\<close>, and one before either.\<close>

definition configured_listener :: "web3_contract \<Rightarrow> web3_conn \<Rightarrow> OracleListener" where
  "configured_listener contract conn =
     \<lparr>w3 = Some conn, oracle_contract = Some contract, account = Some ''0xAccount'',
      private_key = Some ''key''\<rparr>"


section \<open>Properties of the rounding\<close>







section \<open>The two functions in closed form\<close>

lemma calculate_score_sum_eq: "calculate_score_sum m = Inr (spec_sum m)"
  unfolding calculate_score_sum_def spec_sum_def spec_age_bonus_def spec_success_bonus_def
    spec_volume_bonus_def spec_frequency_bonus_def spec_variance_bonus_def
    spec_dispute_penalty_def spec_new_account_penalty_def spec_high_frequency_penalty_def
    spec_wash_trading_penalty_def py_truediv_def py_log10_def Let_def
  by (cases "variance_score m") (auto simp del: min_less_iff_conj max_less_iff_conj)

lemma calculate_score_eq: "calculate_score m = Inr (max 0 (min 100 (py_round (spec_sum m))))"
  by (simp add: calculate_score_def calculate_score_sum_eq)

lemma details_age_bonus_eq:
  "details_age_bonus m (s, fs, ps) =
     (s + spec_age_bonus m, fs(''account_age'' \<mapsto> py_round_ndigits (spec_age_bonus m) 2), ps)"
  by (simp add: details_age_bonus_def spec_age_bonus_def Let_def)

lemma details_success_rate_eq:
  "details_success_rate m (s, fs, ps) =
     Inr (s + spec_success_bonus m,
          (if transaction_count m > 0
           then fs(''success_rate'' \<mapsto> py_round_ndigits (spec_success_bonus m) 2) else fs), ps)"
  by (simp add: details_success_rate_def spec_success_bonus_def py_truediv_def Let_def)

lemma details_volume_bonus_eq:
  "details_volume_bonus m (s, fs, ps) =
     Inr (s + spec_volume_bonus m,
          fs(''transaction_volume'' \<mapsto> py_round_ndigits (spec_volume_bonus m) 2), ps)"
proof -
  have "0 < real_of_int (max (transaction_count m) 1 + 1)" by simp
  then show ?thesis
    by (simp add: details_volume_bonus_def spec_volume_bonus_def py_log10_def Let_def
      del: of_int_add)
qed

lemma details_frequency_bonus_eq:
  "details_frequency_bonus m (s, fs, ps) =
     (s + spec_frequency_bonus m,
      (if 1 / 10 \<le> frequency_per_day m \<and> frequency_per_day m \<le> 5
       then fs(''frequency'' \<mapsto> py_round_ndigits (spec_frequency_bonus m) 2) else fs), ps)"
  by (simp add: details_frequency_bonus_def spec_frequency_bonus_def Let_def)

lemma details_dispute_penalty_eq:
  "details_dispute_penalty m (s, fs, ps) =
     (s - (if dispute_count m > 0 then spec_dispute_penalty m else 0), fs,
      (if dispute_count m > 0 then ps(''disputes'' \<mapsto> spec_dispute_penalty m) else ps))"
  by (simp add: details_dispute_penalty_def spec_dispute_penalty_def Let_def)

lemma details_new_account_penalty_eq:
  "details_new_account_penalty m (s, fs, ps) =
     (s - spec_new_account_penalty m, fs,
      (if account_age_days m < 30
       then ps(''new_account'' \<mapsto> py_round_ndigits (spec_new_account_penalty m) 2) else ps))"
  by (simp add: details_new_account_penalty_def spec_new_account_penalty_def Let_def)

lemma details_high_frequency_penalty_eq:
  "details_high_frequency_penalty m (s, fs, ps) =
     (s - spec_high_frequency_penalty m, fs,
      (if frequency_per_day m > 10
       then ps(''high_frequency'' \<mapsto> py_round_ndigits (spec_high_frequency_penalty m) 2)
       else ps))"
  by (simp add: details_high_frequency_penalty_def spec_high_frequency_penalty_def Let_def)

lemmas details_steps = details_age_bonus_eq details_success_rate_eq details_volume_bonus_eq
  details_frequency_bonus_eq details_dispute_penalty_eq details_new_account_penalty_eq
  details_high_frequency_penalty_eq

lemma details_final_eq:
  "\<exists>d. get_score_details m = Inr d \<and> base_score d = 50 \<and>
       final_score d = max 0 (min 100 (py_round (details_sum m)))"
proof -
  have "50 + spec_age_bonus m + spec_success_bonus m + spec_volume_bonus m +
        spec_frequency_bonus m - (if dispute_count m > 0 then spec_dispute_penalty m else 0) -
        spec_new_account_penalty m - spec_high_frequency_penalty m = details_sum m"
    by (simp add: details_sum_def)
  then show ?thesis
    by (simp add: get_score_details_def details_steps Let_def)
qed

lemma details_final_score_eq:
  "details_final_score m = Inr (max 0 (min 100 (py_round (details_sum m))))"
  using details_final_eq [of m] by (auto simp: details_final_score_def)


section \<open>Monotonicity in the account age\<close>





section \<open>The score engine\<close>

text \<open>
  Claim C1. For every valid metrics record the score of \<^verbatim>\<open>calculate_score\<close> should equal
  the \<^verbatim>\<open>final_score\<close> of the breakdown of \<^verbatim>\<open>get_score_details\<close>. The code breaks this:
  on the valid record \<open>low_variance_metrics\<close> the first function returns 68, having added
  the low-variance bonus of 5, and the breakdown holds 63.
\<close>

theorem calculate_score_differs_from_details:
  "valid_metrics low_variance_metrics \<and>
   calculate_score low_variance_metrics = Inr 68 \<and>
   details_final_score low_variance_metrics = Inr 63"
proof -
  have v: "valid_metrics low_variance_metrics"
    by (simp add: valid_metrics_def low_variance_metrics_def)
  have s: "spec_sum low_variance_metrics = 68"
    by (simp add: spec_sum_def spec_age_bonus_def spec_success_bonus_def
        spec_volume_bonus_def spec_frequency_bonus_def spec_variance_bonus_def
        spec_dispute_penalty_def spec_new_account_penalty_def spec_high_frequency_penalty_def
        spec_wash_trading_penalty_def low_variance_metrics_def)
  have d: "details_sum low_variance_metrics = 63"
    by (simp add: details_sum_def spec_age_bonus_def spec_success_bonus_def
        spec_volume_bonus_def spec_frequency_bonus_def
        spec_dispute_penalty_def spec_new_account_penalty_def spec_high_frequency_penalty_def
        low_variance_metrics_def)
  have r1: "py_round 68 = 68" and r2: "py_round 63 = 63"
    by (simp_all add: py_round_def Let_def)
  show ?thesis
    by (simp add: v calculate_score_eq details_final_score_eq s d r1 r2)
qed

text \<open>
  Claim C2. The breakdown should record every applied factor and penalty, in particular
  the low-variance bonus and the wash-trading penalty. The code breaks this: on the valid
  record \<open>wash_trading_metrics\<close>, where \<^verbatim>\<open>calculate_score\<close> applies both (the score is 73),
  the breakdown has the three factors \<^verbatim>\<open>account_age\<close>, \<^verbatim>\<open>success_rate\<close> and
  \<^verbatim>\<open>transaction_volume\<close>, no penalty at all, and the final score 83.
\<close>

theorem details_omit_variance_and_wash_trading:
  "valid_metrics wash_trading_metrics \<and>
   calculate_score wash_trading_metrics = Inr 73 \<and>
   get_score_details wash_trading_metrics =
     Inr \<lparr>base_score = 50,
          factors = [''account_age'' \<mapsto> 10, ''success_rate'' \<mapsto> 20,
                     ''transaction_volume'' \<mapsto> 3],
          penalties = Map.empty,
          final_score = 83\<rparr>"
proof -
  have v: "valid_metrics wash_trading_metrics"
    by (simp add: valid_metrics_def wash_trading_metrics_def)
  have s: "spec_sum wash_trading_metrics = 73"
    by (simp add: spec_sum_def spec_age_bonus_def spec_success_bonus_def
        spec_volume_bonus_def spec_frequency_bonus_def spec_variance_bonus_def
        spec_dispute_penalty_def spec_new_account_penalty_def spec_high_frequency_penalty_def
        spec_wash_trading_penalty_def wash_trading_metrics_def)
  have r: "py_round 73 = 73" "py_round 83 = 83" "py_round 1000 = 1000"
    "py_round 2000 = 2000" "py_round 300 = 300"
    by (simp_all add: py_round_def Let_def)
  have c: "calculate_score wash_trading_metrics = Inr 73"
    by (simp add: calculate_score_eq s r)
  have g: "get_score_details wash_trading_metrics =
     Inr \<lparr>base_score = 50,
          factors = [''account_age'' \<mapsto> 10, ''success_rate'' \<mapsto> 20,
                     ''transaction_volume'' \<mapsto> 3],
          penalties = Map.empty,
          final_score = 83\<rparr>"
    by (simp add: get_score_details_def details_age_bonus_def details_success_rate_def
        details_volume_bonus_def details_frequency_bonus_def details_dispute_penalty_def
        details_new_account_penalty_def details_high_frequency_penalty_def
        py_truediv_def py_log10_def py_round_ndigits_def r Let_def wash_trading_metrics_def)
  from v c g show ?thesis by simp
qed










section \<open>Tier classification\<close>

text \<open>
  Claim C7. \<^verbatim>\<open>get_tier_from_score\<close> is a function of the integer score alone: it returns
  FULL exactly for a score of at least 80, LIMITED exactly for a score from 50 to 79, and
  BLOCKED exactly for a score below 50; so 80 is FULL, 79 and 50 are LIMITED, 49 is BLOCKED.
\<close>

theorem get_tier_from_score_boundaries:
  "(get_tier_from_score score = ''FULL'') = (80 \<le> score) \<and>
   (get_tier_from_score score = ''LIMITED'') = (50 \<le> score \<and> score < 80) \<and>
   (get_tier_from_score score = ''BLOCKED'') = (score < 50) \<and>
   get_tier_from_score 80 = ''FULL'' \<and> get_tier_from_score 79 = ''LIMITED'' \<and>
   get_tier_from_score 50 = ''LIMITED'' \<and> get_tier_from_score 49 = ''BLOCKED''"
  by (simp add: get_tier_from_score_def)

theorem get_tier_from_score_boundaries_witness:
  "get_tier_from_score 100 = ''FULL'' \<and> get_tier_from_score 65 = ''LIMITED'' \<and>
   get_tier_from_score 0 = ''BLOCKED''"
  using get_tier_from_score_boundaries [of 100] get_tier_from_score_boundaries [of 65]
    get_tier_from_score_boundaries [of 0]
  by simp

section \<open>Publication\<close>

text \<open>
  Claim C6. When the connection state reads not connected, \<^verbatim>\<open>push_score\<close> returns
  success with no transaction hash, for every wallet address and every score in [0,100].
\<close>

theorem push_score_stub_mode:
  assumes "\<not> bs_connected state" and "0 \<le> req_score request" and "req_score request \<le> 100"
  shows "push_score state request =
           Inr \<lparr>success = True,
                resp_wallet_address = req_wallet_address request,
                resp_score = req_score request,
                message = ''Score recorded (blockchain not connected - stub mode)'',
                transaction_hash = None\<rparr>"
  using assms by (simp add: push_score_def)

theorem push_score_stub_mode_witness:
  "\<not> bs_connected stub_state \<and> 0 \<le> req_score sample_request \<and>
   req_score sample_request \<le> 100 \<and>
   push_score stub_state sample_request =
     Inr \<lparr>success = True, resp_wallet_address = ''0xUser'', resp_score = 85,
          message = ''Score recorded (blockchain not connected - stub mode)'',
          transaction_hash = None\<rparr>"
proof -
  have h: "\<not> bs_connected stub_state" "0 \<le> req_score sample_request"
    "req_score sample_request \<le> 100"
    by (simp_all add: stub_state_def sample_request_def)
  from push_score_stub_mode [OF h] h show ?thesis
    by (simp add: sample_request_def)
qed

text \<open>
  Claim C4, as stated: when connected, the publication delegates to the ledger's score
  submission and returns failure without a transaction reference when the ledger fails.
  It fails on a connected state with a ledger whose transaction is reverted (receipt status
  0, so \<^verbatim>\<open>OracleListener.push_score\<close> returns \<^verbatim>\<open>None\<close>): \<^verbatim>\<open>push_score\<close> of \<^verbatim>\<open>main.py\<close> still
  returns success with the transaction hash \<^verbatim>\<open>0x...\<close>.
\<close>

theorem push_score_ignores_ledger_failure:
  "bs_connected connected_state \<and>
   OracleListener_push_score accept_address
     (configured_listener accepting_contract (confirming_conn 0)) ''0xUser'' 85 = Inr None \<and>
   push_score connected_state \<lparr>req_wallet_address = ''0xUser'', req_score = 85\<rparr> =
     Inr \<lparr>success = True, resp_wallet_address = ''0xUser'', resp_score = 85,
          message = ''Score pushed to blockchain'', transaction_hash = Some ''0x...''\<rparr>"
  by (simp add: connected_state_def push_score_def OracleListener_push_score_def
      push_score_try_def submit_transaction_def configured_listener_def confirming_conn_def
      accepting_contract_def accept_address_def)

text \<open>
  Claim C4, amended: whenever the connection state reads connected and the score is in
  [0,100], \<^verbatim>\<open>push_score\<close> makes no call to the ledger and returns success with the fixed
  placeholder \<^verbatim>\<open>0x...\<close> as transaction hash; and every invocation with a score in [0,100],
  connected or not, returns a response with success set, never an exception.
\<close>

theorem push_score_connected_placeholder:
  assumes "0 \<le> req_score request" and "req_score request \<le> 100"
  shows "(bs_connected state \<longrightarrow>
            push_score state request =
              Inr \<lparr>success = True,
                   resp_wallet_address = req_wallet_address request,
                   resp_score = req_score request,
                   message = ''Score pushed to blockchain'',
                   transaction_hash = Some ''0x...''\<rparr>) \<and>
         (\<exists>response. push_score state request = Inr response \<and> success response)"
  using assms by (simp add: push_score_def)

theorem push_score_connected_placeholder_witness:
  "0 \<le> req_score sample_request \<and> req_score sample_request \<le> 100 \<and>
   bs_connected connected_state \<and>
   push_score connected_state sample_request =
     Inr \<lparr>success = True, resp_wallet_address = ''0xUser'', resp_score = 85,
          message = ''Score pushed to blockchain'', transaction_hash = Some ''0x...''\<rparr>"
proof -
  have h: "0 \<le> req_score sample_request" "req_score sample_request \<le> 100"
    by (simp_all add: sample_request_def)
  have c: "bs_connected connected_state" by (simp add: connected_state_def)
  from push_score_connected_placeholder [OF h, of connected_state] c h show ?thesis
    by (simp add: sample_request_def)
qed

section \<open>The oracle listener\<close>





end
